theory Spec2Isabelle
  imports Complex_Main "HOL-Library.Word"
begin

section \<open>Data model\<close>

text \<open>
  The notebook holds two functions, \<open>create_false_color_composite\<close> and
  \<open>highlight_water_bodies\<close>. Both open a multi-band raster with rasterio and work on
  NumPy arrays. A two-dimensional array is a list of rows; a height x width x 3 array is a
  two-dimensional array of channel triples.

  Samples are real numbers. Where the arithmetic of NumPy decides a result that is
  stated below, it is written out: the threshold of the water mask is rounded to float32
  before the comparison, the rescaling of the composite is computed in the arithmetic of
  the raster's sample type, a division by zero gives the non-finite values of
  \<open>fval\<close>, and a cast to \<open>uint8\<close> is fixed only for values it can hold. The
  NDWI quotient and the contrast stretch are computed on exact reals.
\<close>

type_synonym 'a array2 = "'a list list"

type_synonym band = "real array2"

type_synonym 'a rgb = "'a \<times> 'a \<times> 'a"

type_synonym image = "8 word rgb array2"

text \<open>
  The opened dataset \<open>src\<close>: its \<open>height\<close>, \<open>width\<close> and \<open>count\<close> attributes
  and the samples behind \<open>src.read\<close>, by band number (from 1), row and column. Every band
  of a dataset has the dataset's height and width.
\<close>

record raster =
  height :: nat
  width :: nat
  count :: nat
  sample :: "nat \<Rightarrow> nat \<Rightarrow> nat \<Rightarrow> real"

text \<open>
  The uploaded file as \<open>rasterio.open\<close> sees it: a file it cannot read, or a dataset.
  The argument \<open>tiff_file\<close> of both functions is \<open>None\<close> or such a file.
\<close>

datatype tiff = Unreadable | Dataset raster

text \<open>
  Exceptions, and the messages of \<open>gr.Error\<close>. \<open>gr.Error\<close> is a subclass of
  \<open>Exception\<close>. The messages are
  \<^item> \<open>Please_upload\<close>: "Please upload a TIFF file.";
  \<^item> \<open>Input_image_has_only c n\<close>: "Input image has only c bands ..." with the required
    number \<open>n\<close> (7 or 5);
  \<^item> \<open>Failed_to_read\<close>: "Failed to read the file. Please ensure it's a valid GeoTIFF file.";
  \<^item> \<open>An_unexpected_error_occurred e\<close>: "An unexpected error occurred: " followed by
    the text of the exception \<open>e\<close>.
\<close>

datatype exn = GrError message | RasterioIOError | IndexError | ValueError
and message =
    Please_upload
  | Input_image_has_only nat nat
  | Failed_to_read
  | An_unexpected_error_occurred exn

text \<open>
  A floating-point result: a finite number, or what IEEE division by zero gives.
\<close>

datatype fval = Fin real | PInf | NInf | NaN

section \<open>Array operations\<close>

definition try_bind :: "exn + 'a \<Rightarrow> ('a \<Rightarrow> exn + 'b) \<Rightarrow> exn + 'b" where
  "try_bind m f = (case m of Inl e \<Rightarrow> Inl e | Inr v \<Rightarrow> f v)"

definition tabulate2 :: "nat \<Rightarrow> nat \<Rightarrow> (nat \<Rightarrow> nat \<Rightarrow> 'a) \<Rightarrow> 'a array2" where
  "tabulate2 h w f = map (\<lambda>y. map (\<lambda>x. f y x) [0..<w]) [0..<h]"

text \<open>\<open>rasterio.open\<close> raises \<open>RasterioIOError\<close> on a file it cannot read.\<close>

definition rasterio_open :: "tiff \<Rightarrow> exn + raster" where
  "rasterio_open f = (case f of Unreadable \<Rightarrow> Inl RasterioIOError | Dataset src \<Rightarrow> Inr src)"

text \<open>\<open>src.read(i)\<close>: bands are numbered from 1; an index out of range raises \<open>IndexError\<close>.\<close>

definition band_array :: "raster \<Rightarrow> nat \<Rightarrow> band" where
  "band_array src i = tabulate2 (height src) (width src) (sample src i)"

definition read :: "raster \<Rightarrow> nat \<Rightarrow> exn + band" where
  "read src i =
     (if 1 \<le> i \<and> i \<le> count src then Inr (band_array src i) else Inl IndexError)"

text \<open>
  Element-wise operations on arrays of the same shape. Every array of the two functions
  comes from \<open>read\<close> on one dataset, so the shapes always agree.
\<close>

definition elementwise :: "('a \<Rightarrow> 'b \<Rightarrow> 'c) \<Rightarrow> 'a array2 \<Rightarrow> 'b array2 \<Rightarrow> 'c array2" where
  "elementwise f a b = map2 (map2 f) a b"

definition same_shape :: "'a array2 \<Rightarrow> 'b array2 \<Rightarrow> bool" where
  "same_shape a b = (map length a = map length b)"

definition map_rgb :: "('a \<Rightarrow> 'b) \<Rightarrow> 'a rgb \<Rightarrow> 'b rgb" where
  "map_rgb f p = (case p of (r, g, b) \<Rightarrow> (f r, f g, f b))"

text \<open>\<open>np.dstack((r, g, b))\<close>: the three arrays become the channels of one array.\<close>

definition dstack :: "'a array2 \<Rightarrow> 'a array2 \<Rightarrow> 'a array2 \<Rightarrow> 'a rgb array2" where
  "dstack r g b = elementwise (\<lambda>x (y, z). (x, y, z)) r (elementwise Pair g b)"

text \<open>All samples of a three-channel array, in row-major order.\<close>

definition flat :: "'a rgb array2 \<Rightarrow> 'a list" where
  "flat a = concat (map (\<lambda>row. concat (map (\<lambda>(r, g, b). [r, g, b]) row)) a)"

text \<open>\<open>a.min()\<close> and \<open>a.max()\<close>: \<open>ValueError\<close> on an array with no element.\<close>

definition amin :: "real list \<Rightarrow> exn + real" where
  "amin xs = (case xs of [] \<Rightarrow> Inl ValueError | x # ys \<Rightarrow> Inr (fold min ys x))"

definition amax :: "real list \<Rightarrow> exn + real" where
  "amax xs = (case xs of [] \<Rightarrow> Inl ValueError | x # ys \<Rightarrow> Inr (fold max ys x))"

text \<open>
  \<open>astype(np.uint8)\<close> on a float drops the fraction (towards zero) when the result
  is a number from 0 to 255, that is for a float above -1 and below 256. The cast of any
  other float, finite or not, is not fixed by NumPy and depends on the platform: it is
  the parameter \<open>ic\<close>.
\<close>

definition trunc :: "real \<Rightarrow> int" where
  "trunc x = (if 0 \<le> x then \<lfloor>x\<rfloor> else \<lceil>x\<rceil>)"

definition astype_uint8 :: "real \<Rightarrow> 8 word" where
  "astype_uint8 x = word_of_int (trunc x)"

definition fval_astype_uint8 :: "(fval \<Rightarrow> 8 word) \<Rightarrow> fval \<Rightarrow> 8 word" where
  "fval_astype_uint8 ic v =
     (case v of
        Fin x \<Rightarrow> if - 1 < x \<and> x < 256 then astype_uint8 x else ic v
      | _ \<Rightarrow> ic v)"

text \<open>Float division of two finite numbers, without a guard.\<close>

definition fdiv :: "real \<Rightarrow> real \<Rightarrow> fval" where
  "fdiv x y =
     (if y \<noteq> 0 then Fin (x / y)
      else if x = 0 then NaN
      else if 0 < x then PInf else NInf)"

text \<open>Multiplication by a positive finite scalar.\<close>

definition fscale :: "fval \<Rightarrow> real \<Rightarrow> fval" where
  "fscale v k = (case v of Fin x \<Rightarrow> Fin (x * k) | _ \<Rightarrow> v)"

text \<open>\<open>np.clip(v, lo, hi)\<close> is \<open>minimum(hi, maximum(v, lo))\<close>.\<close>

definition clip :: "real \<Rightarrow> real \<Rightarrow> real \<Rightarrow> real" where
  "clip lo hi v = min hi (max v lo)"

text \<open>
  \<open>np.percentile(a, q)\<close> with the default linear interpolation: the virtual index
  \<open>q / 100 * (n - 1)\<close> into the sorted samples, interpolated between its two
  neighbours. On an array with no element current NumPy raises \<open>IndexError\<close>;
  the statements below that need a percentile are about bands with a positive sample.
\<close>

definition percentile :: "real list \<Rightarrow> real \<Rightarrow> exn + real" where
  "percentile a q =
     (if a = [] then Inl IndexError
      else
        let s = sort a;
            n = length s;
            vi = q / 100 * real (n - 1);
            lo = nat \<lfloor>vi\<rfloor>;
            hi = min (lo + 1) (n - 1);
            g = vi - real lo
        in Inr (s ! lo + (s ! hi - s ! lo) * g))"

section \<open>Rounding to float32\<close>

text \<open>
  The conversion of a real number (a Python float) to float32: round to the nearest
  float32, ties to the even significand. A float32 has a sign, a significand of 24 bits
  and an exponent from -126 to 127; below \<open>2 ^ -126\<close> the spacing stays
  \<open>2 ^ -149\<close>, and a result of \<open>2 ^ 128\<close> or more is infinite.
\<close>

definition rne :: "real \<Rightarrow> int" where
  "rne x =
     (let f = \<lfloor>x\<rfloor>; d = x - of_int f
      in if d < 1 / 2 then f else if 1 / 2 < d then f + 1 else if even f then f else f + 1)"

definition pow2 :: "int \<Rightarrow> real" where
  "pow2 e = (if 0 \<le> e then 2 ^ nat e else 1 / 2 ^ nat (- e))"

text \<open>The exponent of a magnitude: the least one from -126 on whose binade holds it.\<close>

definition exponent32 :: "real \<Rightarrow> int" where
  "exponent32 m =
     (case find (\<lambda>e. m < pow2 (e + 1)) [- 126..126] of Some e \<Rightarrow> e | None \<Rightarrow> 127)"

definition round_magnitude :: "real \<Rightarrow> real" where
  "round_magnitude m =
     (let ulp = pow2 (exponent32 m - 23) in of_int (rne (m / ulp)) * ulp)"

definition round_to_float32 :: "real \<Rightarrow> real" where
  "round_to_float32 t = sgn t * round_magnitude \<bar>t\<bar>"

definition float32 :: "real \<Rightarrow> fval" where
  "float32 t =
     (let r = round_to_float32 t
      in if 2 ^ 128 \<le> r then PInf else if r \<le> - (2 ^ 128) then NInf else Fin r)"

text \<open>\<open>v > t\<close> for a finite \<open>v\<close> and a float \<open>t\<close>.\<close>

definition gt_fval :: "real \<Rightarrow> fval \<Rightarrow> bool" where
  "gt_fval v t = (case t of Fin r \<Rightarrow> r < v | NInf \<Rightarrow> True | _ \<Rightarrow> False)"

section \<open>The false-color composite\<close>

text \<open>
  The \<open>except\<close> clauses that close the \<open>try\<close> block of both functions: a
  \<open>RasterioIOError\<close> becomes the message of the unreadable file, every other
  \<open>Exception\<close> the message of the unexpected error.
\<close>

definition except_clauses :: "exn + 'a \<Rightarrow> message + 'a" where
  "except_clauses res =
     (case res of
        Inr v \<Rightarrow> Inr v
      | Inl RasterioIOError \<Rightarrow> Inl Failed_to_read
      | Inl e \<Rightarrow> Inl (An_unexpected_error_occurred e))"

text \<open>
  NumPy computes \<open>false_color_composite - min_val\<close>, \<open>max_val - min_val\<close>,
  their quotient and its product with 255 in the arithmetic of the raster's sample type:
  an integer type subtracts with wrap-around and divides in float64, a float type rounds
  every result and can overflow. The three operations are a parameter of the function.
\<close>

record arithmetic =
  subtract :: "real \<Rightarrow> real \<Rightarrow> fval"
  true_divide :: "fval \<Rightarrow> fval \<Rightarrow> fval"
  multiply :: "fval \<Rightarrow> real \<Rightarrow> fval"

text \<open>The value the rescaling computes for one sample, and its cast.\<close>

definition scaled_sample :: "arithmetic \<Rightarrow> real \<Rightarrow> real \<Rightarrow> real \<Rightarrow> fval" where
  "scaled_sample ar min_val max_val v =
     multiply ar (true_divide ar (subtract ar v min_val) (subtract ar max_val min_val)) 255"

definition normalize_sample ::
  "arithmetic \<Rightarrow> (fval \<Rightarrow> 8 word) \<Rightarrow> real \<Rightarrow> real \<Rightarrow> real \<Rightarrow> 8 word" where
  "normalize_sample ar ic min_val max_val v =
     fval_astype_uint8 ic (scaled_sample ar min_val max_val v)"

text \<open>Reading bands 7, 3 and 2 and stacking them as the red, green and blue channels.\<close>

definition stack_bands :: "raster \<Rightarrow> exn + real rgb array2" where
  "stack_bands src =
     try_bind (read src 7) (\<lambda>red.
     try_bind (read src 3) (\<lambda>green.
     try_bind (read src 2) (\<lambda>blue.
       Inr (dstack red green blue))))"

text \<open>
  The normalisation to the range 0 to 255: the minimum and the maximum are taken over
  the whole stacked array, and a flat array gives \<open>np.zeros_like\<close>.
\<close>

definition normalize_composite ::
  "arithmetic \<Rightarrow> (fval \<Rightarrow> 8 word) \<Rightarrow> real rgb array2 \<Rightarrow> exn + image" where
  "normalize_composite ar ic false_color_composite =
     try_bind (amin (flat false_color_composite)) (\<lambda>min_val.
     try_bind (amax (flat false_color_composite)) (\<lambda>max_val.
       if max_val = min_val
       then Inr (map (map (\<lambda>_. (0, 0, 0))) false_color_composite)
       else Inr (map (map (map_rgb (normalize_sample ar ic min_val max_val)))
                   false_color_composite)))"

text \<open>The body of the \<open>with\<close> block of \<open>create_false_color_composite\<close>.\<close>

definition composite_body ::
  "arithmetic \<Rightarrow> (fval \<Rightarrow> 8 word) \<Rightarrow> raster \<Rightarrow> exn + image" where
  "composite_body ar ic src =
     (if count src < 7 then Inl (GrError (Input_image_has_only (count src) 7))
      else try_bind (stack_bands src) (normalize_composite ar ic))"

definition create_false_color_composite ::
  "arithmetic \<Rightarrow> (fval \<Rightarrow> 8 word) \<Rightarrow> tiff option \<Rightarrow> message + image" where
  "create_false_color_composite ar ic tiff_file =
     (case tiff_file of
        None \<Rightarrow> Inl Please_upload
      | Some f \<Rightarrow> except_clauses (try_bind (rasterio_open f) (composite_body ar ic)))"

text \<open>
  For the statements about the composite: all samples of the three selected bands, and
  the rescaling with rounding to the nearest integer that the specification describes
  (\<open>round\<close> rounds a half up; the two conventions for a half agree wherever this is
  evaluated below).
\<close>

definition selected_samples :: "raster \<Rightarrow> real list" where
  "selected_samples src = concat (map (\<lambda>i. concat (band_array src i)) [7, 3, 2])"


section \<open>Water detection\<close>

text \<open>
  \<open>np.divide(green - nir, denominator, out=zeros, where=(denominator != 0))\<close>: the
  quotient where the denominator is not zero, the zero of \<open>out\<close> elsewhere.
\<close>

definition divide_where :: "real \<Rightarrow> real \<Rightarrow> real" where
  "divide_where num den = (if den \<noteq> 0 then num / den else 0)"

definition compute_ndwi :: "band \<Rightarrow> band \<Rightarrow> band" where
  "compute_ndwi green nir =
     (let denominator = elementwise (+) green nir
      in elementwise divide_where (elementwise (-) green nir) denominator)"

text \<open>
  \<open>ndwi > ndwi_threshold\<close>: the array is float32 and the threshold a Python float,
  which NumPy converts to float32 before it compares.
\<close>

definition water_mask :: "band \<Rightarrow> real \<Rightarrow> bool array2" where
  "water_mask ndwi ndwi_threshold =
     map (map (\<lambda>v. gt_fval v (float32 ndwi_threshold))) ndwi"

text \<open>
  The inner function \<open>normalize_band\<close>. The source takes both percentiles of the
  positive samples in one call of \<open>np.percentile\<close>.
\<close>

definition normalize_band :: "band \<Rightarrow> exn + fval array2" where
  "normalize_band band =
     try_bind (percentile (filter (\<lambda>v. v > 0) (concat band)) 2) (\<lambda>p2.
     try_bind (percentile (filter (\<lambda>v. v > 0) (concat band)) 98) (\<lambda>p98.
       let stretched = map (map (clip p2 p98)) band;
           scaled = map (map (\<lambda>v. fdiv (v - p2) (p98 - p2))) stretched
       in Inr scaled))"

text \<open>The natural-color background, converted to 8 bits.\<close>

definition background_image :: "(fval \<Rightarrow> 8 word) \<Rightarrow> band \<Rightarrow> band \<Rightarrow> band \<Rightarrow> exn + image" where
  "background_image ic red green blue =
     try_bind (normalize_band red) (\<lambda>r.
     try_bind (normalize_band green) (\<lambda>g.
     try_bind (normalize_band blue) (\<lambda>b.
       let natural_color_image = dstack r g b
       in Inr (map (map (map_rgb (\<lambda>v. fval_astype_uint8 ic (fscale v 255))))
                 natural_color_image))))"

text \<open>
  The arrays the compositing step works on live in a store, so that copying and
  assignment in place can be told apart: an address is an index into the list of arrays,
  and a new array takes the next free index.
\<close>

type_synonym store = "image list"

definition highlight_color :: "8 word rgb" where
  "highlight_color = (60, 130, 255)"

text \<open>\<open>a.copy()\<close>: a new array with the contents of the array at \<open>a\<close>.\<close>

definition np_copy :: "store \<Rightarrow> nat \<Rightarrow> nat \<times> store" where
  "np_copy st a = (length st, st @ [st ! a])"

text \<open>\<open>a[selected] = color\<close>: assignment in place to the array at \<open>a\<close>.\<close>

definition setitem_mask :: "store \<Rightarrow> nat \<Rightarrow> bool array2 \<Rightarrow> 8 word rgb \<Rightarrow> store" where
  "setitem_mask st a selected color =
     st[a := elementwise (\<lambda>m p. if m then color else p) selected (st ! a)]"

text \<open>The last statements of the function: copy the background, paint the mask.\<close>

definition apply_water_mask :: "store \<Rightarrow> nat \<Rightarrow> bool array2 \<Rightarrow> nat \<times> store" where
  "apply_water_mask st background water =
     (let (output_image, st1) = np_copy st background
      in (output_image, setitem_mask st1 output_image water highlight_color))"

text \<open>For the statements about water detection: the band has a sample above zero.\<close>

definition has_positive :: "band \<Rightarrow> bool" where
  "has_positive band = (filter (\<lambda>v. v > 0) (concat band) \<noteq> [])"

text \<open>The body of the \<open>with\<close> block of \<open>highlight_water_bodies\<close>.\<close>

definition highlight_body :: "(fval \<Rightarrow> 8 word) \<Rightarrow> raster \<Rightarrow> real \<Rightarrow> exn + image" where
  "highlight_body ic src ndwi_threshold =
     (if count src < 5 then Inl (GrError (Input_image_has_only (count src) 5))
      else
        try_bind (read src 4) (\<lambda>red.
        try_bind (read src 3) (\<lambda>green.
        try_bind (read src 2) (\<lambda>blue.
        try_bind (read src 5) (\<lambda>nir.
          let ndwi = compute_ndwi green nir;
              water = water_mask ndwi ndwi_threshold
          in try_bind (background_image ic red green blue) (\<lambda>background.
               let (output_image, st) = apply_water_mask [background] 0 water
               in Inr (st ! output_image)))))))"

definition highlight_water_bodies ::
  "(fval \<Rightarrow> 8 word) \<Rightarrow> tiff option \<Rightarrow> real \<Rightarrow> message + image" where
  "highlight_water_bodies ic tiff_file ndwi_threshold =
     (case tiff_file of
        None \<Rightarrow> Inl Please_upload
      | Some f \<Rightarrow>
          except_clauses
            (try_bind (rasterio_open f) (\<lambda>src. highlight_body ic src ndwi_threshold)))"

section \<open>Example inputs\<close>



text \<open>A 2 x 1 raster of seven bands, every sample 4.\<close>

definition flat_sample :: "nat \<Rightarrow> nat \<Rightarrow> nat \<Rightarrow> real" where
  "flat_sample i y x = 4"

definition flat_example :: raster where
  "flat_example = \<lparr>height = 2, width = 1, count = 7, sample = flat_sample\<rparr>"

text \<open>A 1 x 1 raster of three bands.\<close>

definition three_band_example :: raster where
  "three_band_example = \<lparr>height = 1, width = 1, count = 3, sample = flat_sample\<rparr>"

text \<open>
  The synthetic 10 x 10 raster of five bands: bands 2, 3 and 4 hold 100, band 5 holds 50,
  band 1 is arbitrary.
\<close>

definition synthetic_sample :: "(nat \<Rightarrow> nat \<Rightarrow> real) \<Rightarrow> nat \<Rightarrow> nat \<Rightarrow> nat \<Rightarrow> real" where
  "synthetic_sample band1 i y x = (if i = 5 then 50 else if i = 1 then band1 y x else 100)"

definition synthetic_raster :: "(nat \<Rightarrow> nat \<Rightarrow> real) \<Rightarrow> raster" where
  "synthetic_raster band1 =
     \<lparr>height = 10, width = 10, count = 5, sample = synthetic_sample band1\<rparr>"

text \<open>
  A 1 x 2 raster of five bands: green is 5 and 3, near-infrared is -5 and 1, so that the
  sum of the two vanishes at the first pixel; the other bands hold 1.
\<close>

definition shore_sample :: "nat \<Rightarrow> nat \<Rightarrow> nat \<Rightarrow> real" where
  "shore_sample i y x =
     (if i = 3 then (if x = 0 then 5 else 3)
      else if i = 5 then (if x = 0 then - 5 else 1)
      else 1)"

definition shore_example :: raster where
  "shore_example = \<lparr>height = 1, width = 2, count = 5, sample = shore_sample\<rparr>"

text \<open>A cast that sends every float that \<open>uint8\<close> cannot hold to 0.\<close>

definition zero_cast :: "fval \<Rightarrow> 8 word" where
  "zero_cast v = 0"

text \<open>
  The arithmetic without wrap-around and without rounding. On the samples 0, 3 and 8 of
  \<open>rounding_example\<close> every sample type computes as it does: the differences, the
  quotients 0, 3/8 and 1 and the products 0, 95.625 and 255 are numbers of each type.
\<close>

definition exact_divide :: "fval \<Rightarrow> fval \<Rightarrow> fval" where
  "exact_divide a b = (case (a, b) of (Fin x, Fin y) \<Rightarrow> fdiv x y | _ \<Rightarrow> NaN)"

definition exact_subtract :: "real \<Rightarrow> real \<Rightarrow> fval" where
  "exact_subtract a b = Fin (a - b)"

definition exact_arithmetic :: arithmetic where
  "exact_arithmetic =
     \<lparr>subtract = exact_subtract, true_divide = exact_divide, multiply = fscale\<rparr>"

section \<open>Arrays given by their samples\<close>

lemma same_shape_length: "same_shape a b \<Longrightarrow> length a = length b"
  unfolding same_shape_def by (rule map_eq_imp_length_eq)

lemma same_shape_row: "same_shape a b \<Longrightarrow> y < length a \<Longrightarrow> length (a ! y) = length (b ! y)"
proof -
  assume s: "same_shape a b" and y: "y < length a"
  have "map length a ! y = map length b ! y" using s by (simp add: same_shape_def)
  then show ?thesis using y same_shape_length [OF s] by simp
qed

lemma length_elementwise: "same_shape a b \<Longrightarrow> length (elementwise f a b) = length a"
  by (simp add: elementwise_def same_shape_length)

lemma nth_elementwise:
  assumes "same_shape a b" "y < length a" "x < length (a ! y)"
  shows "elementwise f a b ! y ! x = f (a ! y ! x) (b ! y ! x)"
  using assms same_shape_length [OF assms(1)] same_shape_row [OF assms(1,2)]
  by (simp add: elementwise_def)

lemma same_shape_elementwise: "same_shape a b \<Longrightarrow> same_shape (elementwise f a b) a"
proof -
  assume s: "same_shape a b"
  have "length a = length b \<Longrightarrow> map length a = map length b \<Longrightarrow>
        map length (map2 (map2 f) a b) = map length a"
    by (induction a b rule: list_induct2) simp_all
  then show ?thesis
    using s same_shape_length [OF s] by (simp add: same_shape_def elementwise_def)
qed

lemma same_shape_elementwise2: "same_shape a b \<Longrightarrow> same_shape (elementwise f a b) b"
  using same_shape_elementwise [of a b f] by (simp add: same_shape_def)

lemma elementwise_tabulate2:
  "elementwise f (tabulate2 h w p) (tabulate2 h w q) = tabulate2 h w (\<lambda>y x. f (p y x) (q y x))"
  by (simp add: elementwise_def tabulate2_def map2_map_map)

lemma map_map_tabulate2: "map (map f) (tabulate2 h w p) = tabulate2 h w (\<lambda>y x. f (p y x))"
  by (simp add: tabulate2_def)

lemma nth_tabulate2: "y < h \<Longrightarrow> x < w \<Longrightarrow> tabulate2 h w p ! y ! x = p y x"
  by (simp add: tabulate2_def)



lemma dstack_tabulate2:
  "dstack (tabulate2 h w p) (tabulate2 h w q) (tabulate2 h w r) =
     tabulate2 h w (\<lambda>y x. (p y x, q y x, r y x))"
  by (simp add: dstack_def elementwise_tabulate2)

lemma mem_concat_tabulate2: "y < h \<Longrightarrow> x < w \<Longrightarrow> p y x \<in> set (concat (tabulate2 h w p))"
  by (force simp: tabulate2_def)

section \<open>Facts about the rounding to float32\<close>

lemma pow2_powi: "pow2 e = 2 powi e"
  by (simp add: pow2_def power_int_def power_one_over)

lemma pow2_pos: "0 < pow2 e"
  by (simp add: pow2_powi)

lemma pow2_mono: "a \<le> b \<Longrightarrow> pow2 a \<le> pow2 b"
  by (simp add: pow2_powi power_int_increasing)

lemma pow2_add: "pow2 (a + b) = pow2 a * pow2 b"
  by (simp add: pow2_powi power_int_add)

lemma pow2_numeral: "pow2 23 = 2 ^ 23" "pow2 24 = 2 ^ 24"
  by (simp_all add: pow2_def)

lemma pow2_ulp_lower: "pow2 e = 2 ^ 23 * pow2 (e - 23)"
  using pow2_add [of 23 "e - 23"] by (simp add: pow2_numeral)

lemma pow2_ulp_upper: "pow2 (e + 1) = 2 ^ 24 * pow2 (e - 23)"
  using pow2_add [of 24 "e - 23"] by (simp add: pow2_numeral add.commute)

lemma exponent32_cases:
  "(exponent32 m = 127 \<and> \<not> m < pow2 127) \<or>
   (- 126 \<le> exponent32 m \<and> exponent32 m \<le> 126 \<and> m < pow2 (exponent32 m + 1) \<and>
    (- 126 < exponent32 m \<longrightarrow> \<not> m < pow2 (exponent32 m)))"
proof (cases "find (\<lambda>e. m < pow2 (e + 1)) [- 126..126]")
  case None
  have ex: "exponent32 m = 127" by (simp only: exponent32_def None option.case)
  have "(126::int) \<in> set [- 126..126]" unfolding set_upto by simp
  then have "\<not> m < pow2 (126 + 1)" using None unfolding find_None_iff by blast
  then show ?thesis using ex by simp
next
  case (Some e)
  have ex: "exponent32 m = e" by (simp only: exponent32_def Some option.case)
  have len: "length [- 126..126::int] = 253" unfolding length_upto by simp
  obtain i where i: "i < 253" "m < pow2 ([- 126..126] ! i + 1)"
    "e = [- 126..126] ! i" "\<forall>j<i. \<not> m < pow2 ([- 126..126] ! j + 1)"
    using Some unfolding find_Some_iff len by blast
  have nth: "[- 126..126] ! k = - 126 + int k" if "k < 253" for k
    using that by (intro nth_upto) linarith
  have ei: "e = - 126 + int i" using i(1,3) nth by simp
  have up: "m < pow2 (e + 1)" using i(2,3) by simp
  have below: "\<not> m < pow2 e" if "- 126 < e"
  proof -
    have j: "i - 1 < i" "i - 1 < 253" using that ei i(1) by linarith+
    have "[- 126..126] ! (i - 1) + 1 = e" using that ei nth [OF j(2)] by linarith
    then show ?thesis using i(4) j(1) by metis
  qed
  show ?thesis using ei i(1) up below unfolding ex by auto
qed

lemma exponent32_range: "- 126 \<le> exponent32 m" "exponent32 m \<le> 127"
  using exponent32_cases [of m] by auto

lemma exponent32_upper: "exponent32 m < 127 \<Longrightarrow> m < pow2 (exponent32 m + 1)"
  using exponent32_cases [of m] by auto

lemma exponent32_lower: "- 126 < exponent32 m \<Longrightarrow> pow2 (exponent32 m) \<le> m"
  using exponent32_cases [of m] by auto

lemma exponent32_mono: "x \<le> y \<Longrightarrow> exponent32 x \<le> exponent32 y"
proof (rule ccontr)
  assume xy: "x \<le> y" and "\<not> exponent32 x \<le> exponent32 y"
  then have lt: "exponent32 y < exponent32 x" by simp
  have "y < pow2 (exponent32 y + 1)"
    using lt exponent32_range(2) [of x] by (intro exponent32_upper) linarith
  also have "pow2 (exponent32 y + 1) \<le> pow2 (exponent32 x)"
    using lt by (intro pow2_mono) linarith
  also have "pow2 (exponent32 x) \<le> x"
    using lt exponent32_range(1) [of y] by (intro exponent32_lower) linarith
  finally show False using xy by simp
qed

lemma exponent32_small: "m < pow2 (- 125) \<Longrightarrow> exponent32 m = - 126"
proof (rule ccontr)
  assume m: "m < pow2 (- 125)" and "exponent32 m \<noteq> - 126"
  then have g: "- 126 < exponent32 m" using exponent32_range(1) [of m] by linarith
  have "pow2 (- 125) \<le> pow2 (exponent32 m)" using g by (intro pow2_mono) linarith
  also have "pow2 (exponent32 m) \<le> m" using g by (rule exponent32_lower)
  finally show False using m by simp
qed

lemma rne_lower: "\<lfloor>x\<rfloor> \<le> rne x"
  by (simp add: rne_def Let_def)

lemma rne_upper: "rne x \<le> \<lfloor>x\<rfloor> + 1"
  by (simp add: rne_def Let_def)

lemma rne_of_int: "rne (of_int n) = n"
  by (simp add: rne_def Let_def)

lemma rne_mono: "x \<le> y \<Longrightarrow> rne x \<le> rne y"
proof (cases "\<lfloor>x\<rfloor> = \<lfloor>y\<rfloor>")
  case True
  assume "x \<le> y"
  then show ?thesis using True by (auto simp: rne_def Let_def)
next
  case False
  assume xy: "x \<le> y"
  then have "\<lfloor>x\<rfloor> < \<lfloor>y\<rfloor>" using False floor_mono [OF xy] by linarith
  then have "rne x \<le> \<lfloor>y\<rfloor>" using rne_upper [of x] by linarith
  then show ?thesis using rne_lower [of y] by linarith
qed

lemma rne_ge_int: "of_int n \<le> x \<Longrightarrow> n \<le> rne x"
  using rne_mono [of "of_int n" x] by (simp add: rne_of_int)

lemma rne_le_int: "x \<le> of_int n \<Longrightarrow> rne x \<le> n"
  using rne_mono [of x "of_int n"] by (simp add: rne_of_int)

lemma rne_half: "0 \<le> x \<Longrightarrow> x \<le> 1 / 2 \<Longrightarrow> rne x = 0"
proof -
  assume a: "0 \<le> x" "x \<le> 1 / 2"
  then have f: "\<lfloor>x\<rfloor> = 0" by linarith
  show ?thesis using a by (simp add: rne_def Let_def f)
qed

lemma rne_above_half: "1 / 2 < x \<Longrightarrow> 1 \<le> rne x"
proof (cases "x < 1")
  case True
  assume a: "1 / 2 < x"
  then have f: "\<lfloor>x\<rfloor> = 0" using True by linarith
  show ?thesis using a by (simp add: rne_def Let_def f)
next
  case False
  then show ?thesis using rne_ge_int [of 1 x] by simp
qed

lemma round_magnitude_nonneg: "0 \<le> m \<Longrightarrow> 0 \<le> round_magnitude m"
proof -
  assume m: "0 \<le> m"
  have "0 \<le> m / pow2 (exponent32 m - 23)"
    using m pow2_pos [of "exponent32 m - 23"] by simp
  then have "0 \<le> rne (m / pow2 (exponent32 m - 23))"
    using rne_ge_int [of 0 "m / pow2 (exponent32 m - 23)"] by simp
  then show ?thesis
    using pow2_pos [of "exponent32 m - 23"] by (simp add: round_magnitude_def Let_def)
qed

lemma round_magnitude_le_pow2:
  assumes "exponent32 m < 127"
  shows "round_magnitude m \<le> pow2 (exponent32 m + 1)"
proof -
  let ?u = "pow2 (exponent32 m - 23)"
  have u: "0 < ?u" by (rule pow2_pos)
  have "m < 2 ^ 24 * ?u"
    using exponent32_upper [OF assms] by (simp add: pow2_ulp_upper)
  then have "m / ?u \<le> of_int (2 ^ 24)" using u by (simp add: field_simps)
  then have "rne (m / ?u) \<le> 2 ^ 24" by (rule rne_le_int)
  then have "real_of_int (rne (m / ?u)) \<le> real_of_int (2 ^ 24)" by (simp only: of_int_le_iff)
  then have "real_of_int (rne (m / ?u)) \<le> 2 ^ 24" by simp
  then have "of_int (rne (m / ?u)) * ?u \<le> 2 ^ 24 * ?u"
    using u by (simp add: mult_right_mono)
  then show ?thesis by (simp add: round_magnitude_def Let_def pow2_ulp_upper)
qed

lemma round_magnitude_ge_pow2:
  assumes "- 126 < exponent32 m"
  shows "pow2 (exponent32 m) \<le> round_magnitude m"
proof -
  let ?u = "pow2 (exponent32 m - 23)"
  have u: "0 < ?u" by (rule pow2_pos)
  have "2 ^ 23 * ?u \<le> m"
    using exponent32_lower [OF assms] pow2_ulp_lower [of "exponent32 m"] by simp
  then have "of_int (2 ^ 23) \<le> m / ?u" using u by (simp add: field_simps)
  then have "2 ^ 23 \<le> rne (m / ?u)" by (rule rne_ge_int)
  then have "real_of_int (2 ^ 23) \<le> real_of_int (rne (m / ?u))" by (simp only: of_int_le_iff)
  then have "2 ^ 23 \<le> real_of_int (rne (m / ?u))" by simp
  then have "2 ^ 23 * ?u \<le> of_int (rne (m / ?u)) * ?u"
    using u by (simp add: mult_right_mono)
  then show ?thesis
    using pow2_ulp_lower [of "exponent32 m"] by (simp add: round_magnitude_def Let_def)
qed

lemma round_magnitude_mono:
  assumes "x \<le> y"
  shows "round_magnitude x \<le> round_magnitude y"
proof (cases "exponent32 x = exponent32 y")
  case True
  let ?u = "pow2 (exponent32 y - 23)"
  have u: "0 < ?u" by (rule pow2_pos)
  have "x / ?u \<le> y / ?u" using assms u by (simp add: divide_right_mono)
  then have "rne (x / ?u) \<le> rne (y / ?u)" by (rule rne_mono)
  then have "real_of_int (rne (x / ?u)) \<le> real_of_int (rne (y / ?u))" by linarith
  then have "of_int (rne (x / ?u)) * ?u \<le> of_int (rne (y / ?u)) * ?u"
    using u by (simp add: mult_right_mono)
  then show ?thesis by (simp add: round_magnitude_def Let_def True)
next
  case False
  then have lt: "exponent32 x < exponent32 y" using exponent32_mono [OF assms] by linarith
  have "round_magnitude x \<le> pow2 (exponent32 x + 1)"
    using lt exponent32_range(2) [of y] by (intro round_magnitude_le_pow2) linarith
  also have "pow2 (exponent32 x + 1) \<le> pow2 (exponent32 y)"
    using lt by (intro pow2_mono) linarith
  also have "pow2 (exponent32 y) \<le> round_magnitude y"
    using lt exponent32_range(1) [of x] by (intro round_magnitude_ge_pow2) linarith
  finally show ?thesis .
qed

lemma round_to_float32_mono:
  assumes "t1 \<le> t2"
  shows "round_to_float32 t1 \<le> round_to_float32 t2"
proof -
  consider "0 \<le> t1" | "t1 < 0" "0 \<le> t2" | "t2 < 0" using assms by linarith
  then show ?thesis
  proof cases
    case 1
    then have "round_magnitude \<bar>t1\<bar> \<le> round_magnitude \<bar>t2\<bar>"
      using assms by (intro round_magnitude_mono) simp
    moreover have "0 \<le> round_magnitude \<bar>t1\<bar>" by (simp add: round_magnitude_nonneg)
    ultimately show ?thesis
      using 1 assms by (cases "t1 = 0"; cases "t2 = 0") (simp_all add: round_to_float32_def sgn_if)
  next
    case 2
    have "0 \<le> round_magnitude \<bar>t1\<bar>" "0 \<le> round_magnitude \<bar>t2\<bar>"
      by (simp_all add: round_magnitude_nonneg)
    then show ?thesis using 2 by (simp add: round_to_float32_def sgn_if)
  next
    case 3
    then have "round_magnitude \<bar>t2\<bar> \<le> round_magnitude \<bar>t1\<bar>"
      using assms by (intro round_magnitude_mono) simp
    then show ?thesis using 3 assms by (simp add: round_to_float32_def sgn_if)
  qed
qed

lemma gt_fval_float32_antitone:
  assumes "t1 \<le> t2" "gt_fval v (float32 t2)"
  shows "gt_fval v (float32 t1)"
  using assms(2) round_to_float32_mono [OF assms(1)]
  by (auto simp: gt_fval_def float32_def Let_def split: if_splits)

lemma round_magnitude_tiny: "0 \<le> m \<Longrightarrow> m \<le> 1 / 2 ^ 150 \<Longrightarrow> round_magnitude m = 0"
proof -
  assume m: "0 \<le> m" "m \<le> 1 / 2 ^ 150"
  have "m < pow2 (- 125)" using m(2) by (simp add: pow2_def)
  then have e: "exponent32 m = - 126" by (rule exponent32_small)
  have u: "pow2 (- 149) = 1 / 2 ^ 149" by (simp add: pow2_def)
  have "m / pow2 (- 149) \<le> 1 / 2" using m(2) by (simp add: u field_simps)
  moreover have "0 \<le> m / pow2 (- 149)" using m(1) by (simp add: u)
  ultimately have "rne (m / pow2 (- 149)) = 0" using rne_half by blast
  then show ?thesis by (simp add: round_magnitude_def e)
qed

lemma round_magnitude_pos: "1 / 2 ^ 150 < m \<Longrightarrow> 0 < round_magnitude m"
proof -
  assume m: "1 / 2 ^ 150 < m"
  let ?u = "pow2 (exponent32 m - 23)"
  have u: "0 < ?u" by (rule pow2_pos)
  have "1 \<le> rne (m / ?u)"
  proof (cases "exponent32 m = - 126")
    case True
    have "pow2 (- 149) = 1 / 2 ^ 149" by (simp add: pow2_def)
    then have "1 / 2 < m / ?u" using m by (simp add: True field_simps)
    then show ?thesis by (rule rne_above_half)
  next
    case False
    then have g: "- 126 < exponent32 m" using exponent32_range(1) [of m] by linarith
    have "2 ^ 23 * ?u \<le> m"
      using exponent32_lower [OF g] pow2_ulp_lower [of "exponent32 m"] by simp
    then have "of_int 1 \<le> m / ?u" using u by (simp add: field_simps)
    then show ?thesis by (rule rne_ge_int)
  qed
  then have "1 \<le> real_of_int (rne (m / ?u))" by linarith
  then have "0 < real_of_int (rne (m / ?u)) * ?u" using u by simp
  then show ?thesis by (simp add: round_magnitude_def Let_def)
qed

lemma float32_negative_iff: "gt_fval 0 (float32 t) \<longleftrightarrow> t < - (1 / 2 ^ 150)"
proof (cases "t < - (1 / 2 ^ 150)")
  case True
  then have "0 < round_magnitude \<bar>t\<bar>" by (intro round_magnitude_pos) simp
  moreover have "- (1 / 2 ^ 150) < (0::real)" by simp
  then have "t < 0" using True by linarith
  ultimately have "round_to_float32 t < 0" by (simp add: round_to_float32_def sgn_if)
  then show ?thesis using True by (simp add: gt_fval_def float32_def Let_def)
next
  case False
  have "0 \<le> round_to_float32 t"
  proof (cases "0 \<le> t")
    case True
    then show ?thesis
      using round_magnitude_nonneg [of "\<bar>t\<bar>"] by (simp add: round_to_float32_def sgn_if)
  next
    case neg: False
    then have "round_magnitude \<bar>t\<bar> = 0" using False by (intro round_magnitude_tiny) simp_all
    then show ?thesis by (simp add: round_to_float32_def)
  qed
  then show ?thesis using False by (simp add: gt_fval_def float32_def Let_def)
qed

text \<open>The rounding of the thresholds that the examples use.\<close>

lemma float32_fifth: "float32 (1 / 5) = Fin (13421773 / 67108864)"
  by code_simp

lemma float32_third: "float32 (6004799503160661 / 18014398509481984) = Fin (11184811 / 33554432)"
  by code_simp

lemma float32_quarter: "float32 (1 / 4) = Fin (1 / 4)"
  by code_simp

lemma float32_zero: "float32 0 = Fin 0"
  by code_simp

section \<open>Facts about the composite\<close>

lemma stack_bands_ok:
  "7 \<le> count src \<Longrightarrow>
   stack_bands src =
     Inr (tabulate2 (height src) (width src)
           (\<lambda>y x. (sample src 7 y x, sample src 3 y x, sample src 2 y x)))"
  by (simp add: stack_bands_def read_def try_bind_def band_array_def dstack_tabulate2)

lemma set_flat_tabulate2:
  "set (flat (tabulate2 h w (\<lambda>y x. (p y x, q y x, r y x)))) =
     set (concat (tabulate2 h w p)) \<union> set (concat (tabulate2 h w q)) \<union>
     set (concat (tabulate2 h w r))"
  by (auto simp: flat_def tabulate2_def)

lemma set_selected_samples:
  "set (selected_samples src) =
     set (flat (tabulate2 (height src) (width src)
           (\<lambda>y x. (sample src 7 y x, sample src 3 y x, sample src 2 y x))))"
  by (auto simp: selected_samples_def band_array_def set_flat_tabulate2)

lemma flat_nonempty:
  "0 < h \<Longrightarrow> 0 < w \<Longrightarrow> flat (tabulate2 h w (\<lambda>y x. (p y x, q y x, r y x))) \<noteq> []"
proof -
  assume "0 < h" "0 < w"
  then have "p 0 0 \<in> set (flat (tabulate2 h w (\<lambda>y x. (p y x, q y x, r y x))))"
    by (force simp: flat_def tabulate2_def)
  then show ?thesis by auto
qed

lemma amin_Min: "xs \<noteq> [] \<Longrightarrow> amin xs = Inr (Min (set xs))"
proof (cases xs)
  case Nil
  moreover assume "xs \<noteq> []"
  ultimately show ?thesis by simp
next
  case (Cons a list)
  then show ?thesis using Min.set_eq_fold [of a list] by (simp add: amin_def)
qed

lemma amax_Max: "xs \<noteq> [] \<Longrightarrow> amax xs = Inr (Max (set xs))"
proof (cases xs)
  case Nil
  moreover assume "xs \<noteq> []"
  ultimately show ?thesis by simp
next
  case (Cons a list)
  then show ?thesis using Max.set_eq_fold [of a list] by (simp add: amax_def)
qed


lemma normalize_composite_flat:
  assumes "flat a \<noteq> []" "Max (set (flat a)) = Min (set (flat a))"
  shows "normalize_composite ar ic a = Inr (map (map (\<lambda>_. (0, 0, 0))) a)"
  using assms by (simp add: normalize_composite_def amin_Min amax_Max try_bind_def)





text \<open>
  The check of the band count raises inside the \<open>try\<close> block, so its error leaves
  either function through the clause for every other \<open>Exception\<close>.
\<close>

lemma composite_too_few_bands:
  "count src < 7 \<Longrightarrow>
   create_false_color_composite ar ic (Some (Dataset src)) =
     Inl (An_unexpected_error_occurred (GrError (Input_image_has_only (count src) 7)))"
  by (simp add: create_false_color_composite_def rasterio_open_def composite_body_def
      try_bind_def except_clauses_def)

lemma highlight_too_few_bands:
  "count src < 5 \<Longrightarrow>
   highlight_water_bodies ic (Some (Dataset src)) t =
     Inl (An_unexpected_error_occurred (GrError (Input_image_has_only (count src) 5)))"
  by (simp add: highlight_water_bodies_def rasterio_open_def highlight_body_def
      try_bind_def except_clauses_def)

section \<open>Facts about water detection\<close>

lemma percentile_ok: "xs \<noteq> [] \<Longrightarrow> \<exists>p. percentile xs q = Inr p"
  by (simp add: percentile_def Let_def)

lemma normalize_band_ok:
  assumes "has_positive band"
  shows "\<exists>p2 p98. normalize_band band =
           Inr (map (map (\<lambda>v. fdiv (clip p2 p98 v - p2) (p98 - p2))) band)"
proof -
  let ?xs = "filter (\<lambda>v. v > 0) (concat band)"
  have ne: "?xs \<noteq> []" using assms by (simp add: has_positive_def)
  obtain p2 where p2: "percentile ?xs 2 = Inr p2" using percentile_ok [OF ne] by blast
  obtain p98 where p98: "percentile ?xs 98 = Inr p98" using percentile_ok [OF ne] by blast
  have "normalize_band band = Inr (map (map (\<lambda>v. fdiv (clip p2 p98 v - p2) (p98 - p2))) band)"
    by (simp add: normalize_band_def p2 p98 try_bind_def comp_def)
  then show ?thesis by blast
qed

lemma background_image_ok:
  assumes "has_positive (tabulate2 h w p)" "has_positive (tabulate2 h w q)"
    "has_positive (tabulate2 h w r)"
  shows "\<exists>bg. background_image ic (tabulate2 h w p) (tabulate2 h w q) (tabulate2 h w r) =
           Inr (tabulate2 h w bg)"
proof -
  obtain a b where 1: "normalize_band (tabulate2 h w p) =
      Inr (tabulate2 h w (\<lambda>y x. fdiv (clip a b (p y x) - a) (b - a)))"
    using normalize_band_ok [OF assms(1)] by (auto simp: map_map_tabulate2)
  obtain c d where 2: "normalize_band (tabulate2 h w q) =
      Inr (tabulate2 h w (\<lambda>y x. fdiv (clip c d (q y x) - c) (d - c)))"
    using normalize_band_ok [OF assms(2)] by (auto simp: map_map_tabulate2)
  obtain e f where 3: "normalize_band (tabulate2 h w r) =
      Inr (tabulate2 h w (\<lambda>y x. fdiv (clip e f (r y x) - e) (f - e)))"
    using normalize_band_ok [OF assms(3)] by (auto simp: map_map_tabulate2)
  have "background_image ic (tabulate2 h w p) (tabulate2 h w q) (tabulate2 h w r) =
      Inr (tabulate2 h w (\<lambda>y x. map_rgb (\<lambda>v. fval_astype_uint8 ic (fscale v 255))
                   (fdiv (clip a b (p y x) - a) (b - a),
                    fdiv (clip c d (q y x) - c) (d - c),
                    fdiv (clip e f (r y x) - e) (f - e))))"
    by (simp add: background_image_def 1 2 3 try_bind_def dstack_tabulate2 map_map_tabulate2)
  then show ?thesis by blast
qed

lemma compute_ndwi_tabulate2:
  "compute_ndwi (tabulate2 h w g) (tabulate2 h w n) =
     tabulate2 h w (\<lambda>y x. divide_where (g y x - n y x) (g y x + n y x))"
  by (simp add: compute_ndwi_def elementwise_tabulate2)

lemma water_mask_tabulate2:
  "water_mask (tabulate2 h w p) t = tabulate2 h w (\<lambda>y x. gt_fval (p y x) (float32 t))"
  by (simp add: water_mask_def map_map_tabulate2)

lemma apply_water_mask_single:
  "apply_water_mask [tabulate2 h w bg] 0 (tabulate2 h w m) =
     (1, [tabulate2 h w bg, tabulate2 h w (\<lambda>y x. if m y x then highlight_color else bg y x)])"
  by (simp add: apply_water_mask_def np_copy_def setitem_mask_def elementwise_tabulate2)

lemma highlight_image:
  assumes "5 \<le> count src" "has_positive (band_array src 4)" "has_positive (band_array src 3)"
    "has_positive (band_array src 2)"
  shows "\<exists>bg. background_image ic (band_array src 4) (band_array src 3) (band_array src 2) =
             Inr (tabulate2 (height src) (width src) bg) \<and>
           (\<forall>t. highlight_water_bodies ic (Some (Dataset src)) t =
              Inr (tabulate2 (height src) (width src)
                    (\<lambda>y x. if gt_fval (divide_where (sample src 3 y x - sample src 5 y x)
                                   (sample src 3 y x + sample src 5 y x)) (float32 t)
                           then highlight_color else bg y x)))"
proof -
  obtain bg where bg: "background_image ic (band_array src 4) (band_array src 3) (band_array src 2) =
      Inr (tabulate2 (height src) (width src) bg)"
    using background_image_ok [OF assms(2-4) [unfolded band_array_def]]
    by (auto simp: band_array_def)
  have "highlight_water_bodies ic (Some (Dataset src)) t =
           Inr (tabulate2 (height src) (width src)
                 (\<lambda>y x. if gt_fval (divide_where (sample src 3 y x - sample src 5 y x)
                                (sample src 3 y x + sample src 5 y x)) (float32 t)
                        then highlight_color else bg y x))" for t
    using assms(1)
    by (simp add: highlight_water_bodies_def rasterio_open_def highlight_body_def read_def
        try_bind_def except_clauses_def bg)
      (simp add: band_array_def compute_ndwi_tabulate2 water_mask_tabulate2
        apply_water_mask_single)
  then show ?thesis using bg by blast
qed

lemma mask_at_pixel:
  "y < height src \<Longrightarrow> x < width src \<Longrightarrow>
   water_mask (compute_ndwi (band_array src 3) (band_array src 5)) t ! y ! x =
     gt_fval (divide_where (sample src 3 y x - sample src 5 y x)
               (sample src 3 y x + sample src 5 y x)) (float32 t)"
  by (simp add: band_array_def compute_ndwi_tabulate2 water_mask_tabulate2 nth_tabulate2)

lemma has_positive_band_array:
  "y < height src \<Longrightarrow> x < width src \<Longrightarrow> 0 < sample src i y x \<Longrightarrow> has_positive (band_array src i)"
proof -
  assume a: "y < height src" "x < width src" "0 < sample src i y x"
  have m: "sample src i y x \<in> set (filter (\<lambda>v. v > 0) (concat (band_array src i)))"
    using a mem_concat_tabulate2 [of y "height src" x "width src" "sample src i"]
    by (simp add: band_array_def)
  show ?thesis
    unfolding has_positive_def
  proof
    assume e: "filter (\<lambda>v. v > 0) (concat (band_array src i)) = []"
    show False using m unfolding e by simp
  qed
qed

lemma normalize_band_degenerate:
  assumes "percentile (filter (\<lambda>v. v > 0) (concat band)) 2 = Inr p"
    "percentile (filter (\<lambda>v. v > 0) (concat band)) 98 = Inr p"
  shows "normalize_band band = Inr (map (map (\<lambda>_. NaN)) band)"
  using assms by (simp add: normalize_band_def try_bind_def clip_def fdiv_def comp_def)

lemma shore_positive:
  "has_positive (band_array shore_example 4)" "has_positive (band_array shore_example 3)"
  "has_positive (band_array shore_example 2)"
  by (simp_all add: has_positive_def band_array_def tabulate2_def shore_example_def
      shore_sample_def numeral_2_eq_2)

lemma shore_background:
  "background_image zero_cast (band_array shore_example 4) (band_array shore_example 3)
     (band_array shore_example 2) = Inr [[(0, 255, 0), (0, 0, 0)]]"
  by (simp add: band_array_def tabulate2_def shore_example_def shore_sample_def
      background_image_def normalize_band_def percentile_def Let_def try_bind_def
      clip_def fdiv_def dstack_def elementwise_def map_rgb_def fval_astype_uint8_def
      fscale_def zero_cast_def astype_uint8_def trunc_def numeral_2_eq_2)

section \<open>The claims\<close>

text \<open>
  C1. For bands \<open>green\<close> and \<open>nir\<close> of the same shape, the NDWI value of a pixel is
  exactly 0 where \<open>green + nir = 0\<close>, whatever the two samples are, and
  \<open>(green - nir) / (green + nir)\<close> at every other pixel.
\<close>

theorem ndwi_zero_denominator:
  assumes "same_shape green nir" "y < length green" "x < length (green ! y)"
  shows "compute_ndwi green nir ! y ! x =
          (if green ! y ! x + nir ! y ! x = 0 then 0
           else (green ! y ! x - nir ! y ! x) / (green ! y ! x + nir ! y ! x))"
proof -
  have d: "same_shape (elementwise (-) green nir) green"
    by (rule same_shape_elementwise [OF assms(1)])
  have p: "same_shape (elementwise (+) green nir) green"
    by (rule same_shape_elementwise [OF assms(1)])
  have s1: "same_shape (elementwise (-) green nir) (elementwise (+) green nir)"
    using d p by (simp add: same_shape_def)
  have l: "y < length (elementwise (-) green nir)"
    using assms by (simp add: length_elementwise)
  have r: "x < length (elementwise (-) green nir ! y)"
    using same_shape_row [OF d l] assms(3) by simp
  show ?thesis
    unfolding compute_ndwi_def Let_def
    by (simp add: nth_elementwise [OF s1 l r] nth_elementwise [OF assms] divide_where_def)
qed

theorem ndwi_zero_denominator_witness:
  "same_shape [[5, 3 :: real]] [[- 5, 1 :: real]] \<and>
   compute_ndwi [[5, 3]] [[- 5, 1]] ! 0 ! 0 = 0 \<and>
   compute_ndwi [[5, 3]] [[- 5, 1]] ! 0 ! 1 = 1 / 2"
  using ndwi_zero_denominator [of "[[5, 3]]" "[[- 5, 1]]" 0 0]
    ndwi_zero_denominator [of "[[5, 3]]" "[[- 5, 1]]" 0 1]
  by (simp add: same_shape_def)

text \<open>
  C2, as the specification states it: for every real threshold a pixel is in the water
  mask if and only if its index is strictly greater than the threshold. The threshold
  0.3333333333333333 is below the index 0.3333333432674408, the float32 next to 1/3, yet
  the pixel is not in the mask: rounded to float32 the threshold is that very number.
\<close>

theorem water_mask_real_threshold_counterexample:
  "(6004799503160661 / 18014398509481984 :: real) < 11184811 / 33554432 \<and>
   water_mask [[11184811 / 33554432]] (6004799503160661 / 18014398509481984) = [[False]]"
  by (simp add: water_mask_def gt_fval_def float32_third)

text \<open>
  C2, amended: a pixel is in the water mask if and only if its index is strictly greater
  than the threshold as rounded to float32 (to the nearest float32, ties to even; a
  threshold beyond the float32 range compares as infinite), and a pixel whose index equals
  the rounded threshold is not in the mask. For a threshold that is a float32 value this
  is the strict comparison with the threshold itself.
\<close>

theorem water_mask_strict:
  assumes "y < length ndwi" "x < length (ndwi ! y)"
  shows "(water_mask ndwi t ! y ! x \<longleftrightarrow> gt_fval (ndwi ! y ! x) (float32 t)) \<and>
         (\<forall>r. float32 t = Fin r \<longrightarrow>
            (water_mask ndwi t ! y ! x \<longleftrightarrow> r < ndwi ! y ! x) \<and>
            (ndwi ! y ! x = r \<longrightarrow> \<not> water_mask ndwi t ! y ! x)) \<and>
         (float32 t = PInf \<longrightarrow> \<not> water_mask ndwi t ! y ! x) \<and>
         (float32 t = NInf \<longrightarrow> water_mask ndwi t ! y ! x) \<and>
         (float32 t = Fin t \<longrightarrow>
            (water_mask ndwi t ! y ! x \<longleftrightarrow> t < ndwi ! y ! x) \<and>
            (ndwi ! y ! x = t \<longrightarrow> \<not> water_mask ndwi t ! y ! x))"
  using assms by (simp add: water_mask_def gt_fval_def)

theorem water_mask_strict_witness:
  "float32 (1 / 4) = Fin (1 / 4) \<and>
   \<not> water_mask [[1 / 4, 1 / 2]] (1 / 4) ! 0 ! 0 \<and> water_mask [[1 / 4, 1 / 2]] (1 / 4) ! 0 ! 1"
  using water_mask_strict [of 0 "[[1 / 4, 1 / 2]]" 0 "1 / 4"]
    water_mask_strict [of 0 "[[1 / 4, 1 / 2]]" 1 "1 / 4"]
  by (simp add: float32_quarter gt_fval_def)

text \<open>
  C3. Compositing the mask over the background gives a new array: it holds the highlight
  color (60, 130, 255) at every pixel of the mask and the background pixel at every other
  one, and the background array, like every array that was in the store, is unchanged.
\<close>

theorem apply_water_mask_new_image:
  assumes "background < length st" "same_shape water (st ! background)"
    "y < length (st ! background)" "x < length (st ! background ! y)"
  shows "case apply_water_mask st background water of (output_image, st') \<Rightarrow>
           output_image \<noteq> background \<and> output_image < length st' \<and>
           st' ! background = st ! background \<and>
           (\<forall>a < length st. st' ! a = st ! a) \<and>
           same_shape (st' ! output_image) (st ! background) \<and>
           st' ! output_image ! y ! x =
             (if water ! y ! x then (60, 130, 255) else st ! background ! y ! x)"
proof -
  have yw: "y < length water" using assms(3) same_shape_length [OF assms(2)] by simp
  have xw: "x < length (water ! y)" using assms(4) same_shape_row [OF assms(2) yw] by simp
  show ?thesis
    using assms
    by (simp add: apply_water_mask_def np_copy_def setitem_mask_def highlight_color_def
        nth_append nth_elementwise [OF assms(2) yw xw] same_shape_elementwise2)
qed

theorem apply_water_mask_new_image_witness:
  "apply_water_mask [[[(1, 2, 3), (4, 5, 6)]]] 0 [[True, False]] =
     (1, [[[(1, 2, 3), (4, 5, 6)]], [[(60, 130, 255), (4, 5, 6)]]])"
  using apply_water_mask_new_image [of 0 "[[[(1, 2, 3), (4, 5, 6)]]]" "[[True, False]]" 0 0]
    apply_water_mask_new_image [of 0 "[[[(1, 2, 3), (4, 5, 6)]]]" "[[True, False]]" 0 1]
  by (simp add: same_shape_def apply_water_mask_def np_copy_def setitem_mask_def
      elementwise_def highlight_color_def)




text \<open>
  C5. For a raster of at least 7 bands whose bands 7, 3 and 2 are jointly constant (the
  maximum over all their samples equals the minimum), the composite is the all-zero 8-bit
  image of the raster's height and width, with three channels.
\<close>

theorem composite_flat_image:
  assumes "7 \<le> count src" "0 < height src" "0 < width src"
    "Max (set (selected_samples src)) = Min (set (selected_samples src))"
  shows "create_false_color_composite ar ic (Some (Dataset src)) =
           Inr (replicate (height src) (replicate (width src) (0, 0, 0)))"
proof -
  let ?a = "tabulate2 (height src) (width src)
             (\<lambda>y x. (sample src 7 y x, sample src 3 y x, sample src 2 y x))"
  have ne: "flat ?a \<noteq> []" using assms(2,3) by (rule flat_nonempty)
  have eq: "Max (set (flat ?a)) = Min (set (flat ?a))"
    using assms(4) by (simp add: set_selected_samples)
  have "normalize_composite ar ic ?a = Inr (map (map (\<lambda>_. (0, 0, 0))) ?a)"
    by (rule normalize_composite_flat [OF ne eq])
  also have "map (map (\<lambda>_. (0, 0, 0))) ?a = replicate (height src) (replicate (width src) (0, 0, 0))"
    by (simp add: tabulate2_def map_replicate_trivial comp_def)
  finally show ?thesis
    using assms(1)
    by (simp add: create_false_color_composite_def rasterio_open_def composite_body_def
        try_bind_def except_clauses_def stack_bands_ok)
qed

theorem composite_flat_image_witness:
  "create_false_color_composite exact_arithmetic zero_cast (Some (Dataset flat_example)) =
     Inr [[(0, 0, 0)], [(0, 0, 0)]]"
  using composite_flat_image [of flat_example exact_arithmetic zero_cast]
  by (simp add: selected_samples_def band_array_def tabulate2_def numeral_2_eq_2
      flat_example_def flat_sample_def)

text \<open>
  C6. A raster of fewer than 7 bands (composite) or fewer than 5 bands (water detection)
  is to fail with the message of the missing bands and with no other one. Both functions
  raise that \<open>gr.Error\<close> inside their \<open>try\<close> block, where the clause
  \<open>except Exception\<close> catches it: on a raster of 3 bands the error that leaves either
  function is the one of the unexpected error, wrapped around the message of the bands.
\<close>

theorem insufficient_bands_wrapped:
  "create_false_color_composite ar ic (Some (Dataset three_band_example)) =
     Inl (An_unexpected_error_occurred (GrError (Input_image_has_only 3 7))) \<and>
   highlight_water_bodies ic (Some (Dataset three_band_example)) t =
     Inl (An_unexpected_error_occurred (GrError (Input_image_has_only 3 5)))"
  by (simp add: create_false_color_composite_def highlight_water_bodies_def rasterio_open_def
      composite_body_def highlight_body_def try_bind_def except_clauses_def
      three_band_example_def)

text \<open>
  C7. When the 2nd and the 98th percentile of the positive samples coincide, the stretched
  band is to be all zeros, behind a guard. \<open>normalize_band\<close> has no guard: on a band
  that holds 100 everywhere both percentiles are 100 and every sample of the result is
  the NaN of 0 / 0.
\<close>

theorem normalize_band_unguarded:
  "percentile [100, 100, 100, 100] 2 = Inr 100 \<and>
   percentile [100, 100, 100, 100] 98 = Inr 100 \<and>
   normalize_band [[100, 100], [100, 100]] = Inr [[NaN, NaN], [NaN, NaN]]"
  by (simp add: normalize_band_def try_bind_def percentile_def clip_def fdiv_def Let_def)

text \<open>
  C8. On the 10 x 10 raster of 5 bands whose bands 2, 3 and 4 hold 100 and whose band 5
  holds 50, the NDWI is 1/3 at every pixel, and with the threshold 0.2 the returned image
  is the highlight color (60, 130, 255) at every one of its 10 x 10 pixels.
\<close>

theorem synthetic_scenario:
  "compute_ndwi (band_array (synthetic_raster band1) 3) (band_array (synthetic_raster band1) 5) =
     replicate 10 (replicate 10 (1 / 3)) \<and>
   highlight_water_bodies ic (Some (Dataset (synthetic_raster band1))) (1 / 5) =
     Inr (replicate 10 (replicate 10 (60, 130, 255)))"
proof -
  let ?src = "synthetic_raster band1"
  have dims: "height ?src = 10" "width ?src = 10" "count ?src = 5"
    by (simp_all add: synthetic_raster_def)
  have smp: "sample ?src 3 y x = 100" "sample ?src 5 y x = 50" for y x
    by (simp_all add: synthetic_raster_def synthetic_sample_def)
  have pos: "has_positive (band_array ?src 4)" "has_positive (band_array ?src 3)"
    "has_positive (band_array ?src 2)"
    by (rule has_positive_band_array [of 0 _ 0];
        simp add: synthetic_raster_def synthetic_sample_def)+
  obtain bg where bg: "\<And>t. highlight_water_bodies ic (Some (Dataset ?src)) t =
           Inr (tabulate2 (height ?src) (width ?src)
                 (\<lambda>y x. if gt_fval (divide_where (sample ?src 3 y x - sample ?src 5 y x)
                                (sample ?src 3 y x + sample ?src 5 y x)) (float32 t)
                        then highlight_color else bg y x))"
    using highlight_image [OF _ pos, of ic] by (auto simp: dims)
  have 1: "compute_ndwi (band_array ?src 3) (band_array ?src 5) =
      replicate 10 (replicate 10 (1 / 3))"
    by (simp add: band_array_def compute_ndwi_tabulate2 divide_where_def dims smp)
      (simp add: tabulate2_def map_replicate_trivial)
  have 2: "highlight_water_bodies ic (Some (Dataset ?src)) (1 / 5) =
     Inr (replicate 10 (replicate 10 (60, 130, 255)))"
    by (simp add: bg divide_where_def highlight_color_def dims smp float32_fifth gt_fval_def)
      (simp add: tabulate2_def map_replicate_trivial)
  show ?thesis using 1 2 by simp
qed

text \<open>
  C9. The water mask is antitone in the threshold: for thresholds \<open>t1 \<le> t2\<close>, a
  pixel that is water at \<open>t2\<close> is water at \<open>t1\<close>; and on a raster that water
  detection accepts (at least 5 bands, a positive sample in each of the bands 4, 3 and 2)
  both calls return an image that holds the highlight color at that pixel.
\<close>

theorem mask_antitone:
  assumes "t1 \<le> t2" "y < height src" "x < width src"
    "water_mask (compute_ndwi (band_array src 3) (band_array src 5)) t2 ! y ! x"
  shows "water_mask (compute_ndwi (band_array src 3) (band_array src 5)) t1 ! y ! x \<and>
         (5 \<le> count src \<and> has_positive (band_array src 4) \<and>
          has_positive (band_array src 3) \<and> has_positive (band_array src 2) \<longrightarrow>
          (\<exists>img1 img2. highlight_water_bodies ic (Some (Dataset src)) t1 = Inr img1 \<and>
             highlight_water_bodies ic (Some (Dataset src)) t2 = Inr img2 \<and>
             img2 ! y ! x = highlight_color \<and> img1 ! y ! x = highlight_color))"
proof -
  let ?v = "divide_where (sample src 3 y x - sample src 5 y x)
              (sample src 3 y x + sample src 5 y x)"
  have w2: "gt_fval ?v (float32 t2)"
    using assms(4) by (simp add: mask_at_pixel [OF assms(2,3)])
  have w1: "gt_fval ?v (float32 t1)"
    using assms(1) w2 by (rule gt_fval_float32_antitone)
  have m1: "water_mask (compute_ndwi (band_array src 3) (band_array src 5)) t1 ! y ! x"
    using w1 by (simp add: mask_at_pixel [OF assms(2,3)])
  have painted: "\<exists>img1 img2. highlight_water_bodies ic (Some (Dataset src)) t1 = Inr img1 \<and>
             highlight_water_bodies ic (Some (Dataset src)) t2 = Inr img2 \<and>
             img2 ! y ! x = highlight_color \<and> img1 ! y ! x = highlight_color"
    if ok: "5 \<le> count src" "has_positive (band_array src 4)"
      "has_positive (band_array src 3)" "has_positive (band_array src 2)"
  proof -
    obtain bg where bg: "\<And>t. highlight_water_bodies ic (Some (Dataset src)) t =
           Inr (tabulate2 (height src) (width src)
                 (\<lambda>y x. if gt_fval (divide_where (sample src 3 y x - sample src 5 y x)
                                (sample src 3 y x + sample src 5 y x)) (float32 t)
                        then highlight_color else bg y x))"
      using highlight_image [OF ok, of ic] by blast
    show ?thesis
      using w1 w2 assms(2,3) by (simp add: bg nth_tabulate2)
  qed
  show ?thesis using m1 painted by blast
qed

theorem mask_antitone_witness:
  "water_mask (compute_ndwi (band_array shore_example 3) (band_array shore_example 5)) (1 / 5) ! 0 ! 1 \<and>
   water_mask (compute_ndwi (band_array shore_example 3) (band_array shore_example 5)) 0 ! 0 ! 1 \<and>
   (\<exists>img1 img2. highlight_water_bodies zero_cast (Some (Dataset shore_example)) 0 = Inr img1 \<and>
      highlight_water_bodies zero_cast (Some (Dataset shore_example)) (1 / 5) = Inr img2 \<and>
      img2 ! 0 ! 1 = highlight_color \<and> img1 ! 0 ! 1 = highlight_color)"
proof -
  have c: "5 \<le> count shore_example" "0 < height shore_example" "1 < width shore_example"
    by (simp_all add: shore_example_def)
  have "gt_fval (divide_where (sample shore_example 3 0 1 - sample shore_example 5 0 1)
               (sample shore_example 3 0 1 + sample shore_example 5 0 1)) (float32 (1 / 5))"
    by (simp add: float32_fifth gt_fval_def shore_example_def shore_sample_def divide_where_def)
  then have w: "water_mask (compute_ndwi (band_array shore_example 3) (band_array shore_example 5)) (1 / 5) ! 0 ! 1"
    by (simp only: mask_at_pixel [OF c(2,3)])
  have t: "(0 :: real) \<le> 1 / 5" by simp
  show ?thesis
    using w c(1) shore_positive mask_antitone [OF t c(2,3) w, of zero_cast]
    by simp
qed

text \<open>
  C10, as the specification states it: for every strictly negative threshold a pixel
  whose green and near-infrared samples sum to 0 is classified as water and painted with
  the highlight color. The threshold \<open>- (1 / 2 ^ 160)\<close> is negative, but float32 has
  no number that small: the comparison sees it as zero, the first pixel of
  \<open>shore_example\<close>, whose NDWI is 0, is not in the mask, and the returned image is
  not the one of the threshold -0.1, which paints that pixel.
\<close>

theorem zero_sum_tiny_threshold_counterexample:
  "- (1 / 2 ^ 160) < (0 :: real) \<and>
   sample shore_example 3 0 0 + sample shore_example 5 0 0 = 0 \<and>
   \<not> water_mask (compute_ndwi (band_array shore_example 3) (band_array shore_example 5))
       (- (1 / 2 ^ 160)) ! 0 ! 0 \<and>
   water_mask (compute_ndwi (band_array shore_example 3) (band_array shore_example 5))
       (- 1 / 10) ! 0 ! 0 \<and>
   highlight_water_bodies zero_cast (Some (Dataset shore_example)) (- (1 / 2 ^ 160)) \<noteq>
     highlight_water_bodies zero_cast (Some (Dataset shore_example)) (- 1 / 10)"
proof -
  have c: "5 \<le> count shore_example" "0 < height shore_example" "0 < width shore_example"
    by (simp_all add: shore_example_def)
  have z: "divide_where (sample shore_example 3 0 0 - sample shore_example 5 0 0)
      (sample shore_example 3 0 0 + sample shore_example 5 0 0) = 0"
    by (simp add: shore_example_def shore_sample_def divide_where_def)
  have tiny: "\<not> gt_fval 0 (float32 (- (1 / 2 ^ 160)))"
    unfolding float32_negative_iff by simp
  have tenth: "gt_fval 0 (float32 (- 1 / 10))"
    unfolding float32_negative_iff by simp
  obtain bg where bg:
    "background_image zero_cast (band_array shore_example 4) (band_array shore_example 3)
       (band_array shore_example 2) = Inr (tabulate2 (height shore_example) (width shore_example) bg)"
    and img: "\<And>t. highlight_water_bodies zero_cast (Some (Dataset shore_example)) t =
       Inr (tabulate2 (height shore_example) (width shore_example)
             (\<lambda>y x. if gt_fval (divide_where (sample shore_example 3 y x - sample shore_example 5 y x)
                            (sample shore_example 3 y x + sample shore_example 5 y x)) (float32 t)
                    then highlight_color else bg y x))"
    using highlight_image [OF c(1) shore_positive, of zero_cast] by blast
  have "tabulate2 (height shore_example) (width shore_example) bg = [[(0, 255, 0), (0, 0, 0)]]"
    using bg unfolding shore_background by simp
  then have "tabulate2 (height shore_example) (width shore_example) bg ! 0 ! 0 = (0, 255, 0)"
    by simp
  then have b: "bg 0 0 = (0, 255, 0)" using c(2,3) by (simp add: nth_tabulate2)
  let ?img = "\<lambda>t. tabulate2 (height shore_example) (width shore_example)
             (\<lambda>y x. if gt_fval (divide_where (sample shore_example 3 y x - sample shore_example 5 y x)
                            (sample shore_example 3 y x + sample shore_example 5 y x)) (float32 t)
                    then highlight_color else bg y x)"
  have p1: "?img (- (1 / 2 ^ 160)) ! 0 ! 0 = (0, 255, 0)"
    using c(2,3) tiny by (simp add: nth_tabulate2 z b)
  have p2: "?img (- 1 / 10) ! 0 ! 0 = (60, 130, 255)"
    using c(2,3) tenth by (simp add: nth_tabulate2 z highlight_color_def)
  have differ: "highlight_water_bodies zero_cast (Some (Dataset shore_example)) (- (1 / 2 ^ 160)) \<noteq>
     highlight_water_bodies zero_cast (Some (Dataset shore_example)) (- 1 / 10)"
  proof
    assume "highlight_water_bodies zero_cast (Some (Dataset shore_example)) (- (1 / 2 ^ 160)) =
      highlight_water_bodies zero_cast (Some (Dataset shore_example)) (- 1 / 10)"
    then have "?img (- (1 / 2 ^ 160)) = ?img (- 1 / 10)" unfolding img by (rule Inr_inject)
    then have "?img (- (1 / 2 ^ 160)) ! 0 ! 0 = ?img (- 1 / 10) ! 0 ! 0" by (rule arg_cong)
    then have "((0, 255, 0) :: 8 word rgb) = (60, 130, 255)" unfolding p1 p2 .
    then show False by simp
  qed
  have n1: "\<not> water_mask (compute_ndwi (band_array shore_example 3) (band_array shore_example 5))
       (- (1 / 2 ^ 160)) ! 0 ! 0"
    unfolding mask_at_pixel [OF c(2,3)] z by (rule tiny)
  have n2: "water_mask (compute_ndwi (band_array shore_example 3) (band_array shore_example 5))
       (- 1 / 10) ! 0 ! 0"
    unfolding mask_at_pixel [OF c(2,3)] z by (rule tenth)
  have s0: "sample shore_example 3 0 0 + sample shore_example 5 0 0 = 0"
    by (simp add: shore_example_def shore_sample_def)
  have neg: "- (1 / 2 ^ 160) < (0 :: real)" by simp
  show ?thesis using neg s0 n1 n2 differ by blast
qed

text \<open>
  C10, amended: a pixel whose green and near-infrared samples sum to 0 has the NDWI
  value 0. It is classified as water exactly when the threshold is below
  \<open>- (1 / 2 ^ 150)\<close>, that is for every negative threshold that float32 does not round
  to zero; on a raster that water detection accepts the returned image then holds the
  highlight color at that pixel. For every other threshold, so for every threshold from
  0 on, the pixel is not in the mask and keeps the pixel of the background: the
  convention that such a pixel is no water holds for these thresholds only.
\<close>

theorem zero_sum_threshold:
  assumes "y < height src" "x < width src"
    "sample src 3 y x + sample src 5 y x = 0"
  shows "compute_ndwi (band_array src 3) (band_array src 5) ! y ! x = 0 \<and>
         (water_mask (compute_ndwi (band_array src 3) (band_array src 5)) t ! y ! x \<longleftrightarrow>
            t < - (1 / 2 ^ 150)) \<and>
         (0 \<le> t \<longrightarrow>
            \<not> water_mask (compute_ndwi (band_array src 3) (band_array src 5)) t ! y ! x) \<and>
         (5 \<le> count src \<and> has_positive (band_array src 4) \<and>
          has_positive (band_array src 3) \<and> has_positive (band_array src 2) \<longrightarrow>
          (\<exists>img bg. highlight_water_bodies ic (Some (Dataset src)) t = Inr img \<and>
             background_image ic (band_array src 4) (band_array src 3) (band_array src 2) =
               Inr bg \<and>
             img ! y ! x = (if t < - (1 / 2 ^ 150) then highlight_color else bg ! y ! x)))"
proof -
  have z: "divide_where (sample src 3 y x - sample src 5 y x)
             (sample src 3 y x + sample src 5 y x) = 0"
    using assms(3) by (simp add: divide_where_def)
  have n: "compute_ndwi (band_array src 3) (band_array src 5) ! y ! x = 0"
    using assms(1,2) z
    by (simp add: band_array_def compute_ndwi_tabulate2 nth_tabulate2)
  have m: "water_mask (compute_ndwi (band_array src 3) (band_array src 5)) t ! y ! x \<longleftrightarrow>
      t < - (1 / 2 ^ 150)"
    by (simp add: mask_at_pixel [OF assms(1,2)] z float32_negative_iff)
  have "- (1 / 2 ^ 150) < (0::real)" by simp
  then have nonneg: "0 \<le> t \<longrightarrow>
      \<not> water_mask (compute_ndwi (band_array src 3) (band_array src 5)) t ! y ! x"
    unfolding m by linarith
  have painted: "\<exists>img bg. highlight_water_bodies ic (Some (Dataset src)) t = Inr img \<and>
             background_image ic (band_array src 4) (band_array src 3) (band_array src 2) =
               Inr bg \<and>
             img ! y ! x = (if t < - (1 / 2 ^ 150) then highlight_color else bg ! y ! x)"
    if ok: "5 \<le> count src" "has_positive (band_array src 4)"
      "has_positive (band_array src 3)" "has_positive (band_array src 2)"
  proof -
    obtain bg where bg:
      "background_image ic (band_array src 4) (band_array src 3) (band_array src 2) =
         Inr (tabulate2 (height src) (width src) bg)"
      and img: "\<And>t. highlight_water_bodies ic (Some (Dataset src)) t =
           Inr (tabulate2 (height src) (width src)
                 (\<lambda>y x. if gt_fval (divide_where (sample src 3 y x - sample src 5 y x)
                                (sample src 3 y x + sample src 5 y x)) (float32 t)
                        then highlight_color else bg y x))"
      using highlight_image [OF ok, of ic] by blast
    have "tabulate2 (height src) (width src)
                 (\<lambda>y x. if gt_fval (divide_where (sample src 3 y x - sample src 5 y x)
                                (sample src 3 y x + sample src 5 y x)) (float32 t)
                        then highlight_color else bg y x) ! y ! x =
          (if t < - (1 / 2 ^ 150) then highlight_color
           else tabulate2 (height src) (width src) bg ! y ! x)"
      using assms(1,2) by (simp add: nth_tabulate2 z float32_negative_iff)
    then show ?thesis using bg img by blast
  qed
  show ?thesis using n m nonneg painted by blast
qed

theorem zero_sum_threshold_witness:
  "compute_ndwi (band_array shore_example 3) (band_array shore_example 5) ! 0 ! 0 = 0 \<and>
   water_mask (compute_ndwi (band_array shore_example 3) (band_array shore_example 5)) (- 1 / 10) ! 0 ! 0 \<and>
   \<not> water_mask (compute_ndwi (band_array shore_example 3) (band_array shore_example 5)) 0 ! 0 ! 0 \<and>
   (\<exists>img. highlight_water_bodies zero_cast (Some (Dataset shore_example)) (- 1 / 10) = Inr img \<and>
      img ! 0 ! 0 = highlight_color) \<and>
   (\<exists>img bg. highlight_water_bodies zero_cast (Some (Dataset shore_example)) 0 = Inr img \<and>
      background_image zero_cast (band_array shore_example 4) (band_array shore_example 3)
        (band_array shore_example 2) = Inr bg \<and>
      img ! 0 ! 0 = bg ! 0 ! 0)"
proof -
  have c: "5 \<le> count shore_example" "0 < height shore_example" "0 < width shore_example"
    "sample shore_example 3 0 0 + sample shore_example 5 0 0 = 0"
    by (simp_all add: shore_example_def shore_sample_def)
  show ?thesis
    using c(1) shore_positive zero_sum_threshold [OF c(2,3,4), of "- 1 / 10" zero_cast]
      zero_sum_threshold [OF c(2,3,4), of 0 zero_cast]
    by auto
qed

end
